theory Spec2Isabelle
  imports Complex_Main
begin

section \<open>JavaScript values shared by the browser client and the escrow server\<close>

text \<open>
  A thrown value or the reason of a rejected promise. The code reads its \<^verbatim>\<open>message\<close>,
  which may be undefined, and of an HTTP client error also
  \<^verbatim>\<open>response?.data?.message\<close>, the second argument of \<open>AxiosError\<close>.
\<close>

datatype js_error =
    Error (err_message: "string option")
  | TypeError (err_message: "string option")
  | AxiosError (err_message: "string option") "string option"

definition response_data_message :: "js_error \<Rightarrow> string option" where
  "response_data_message e = (case e of AxiosError m r \<Rightarrow> r | _ \<Rightarrow> None)"

text \<open>
  The outcome of an awaited call. Every asynchronous collaborator is taken to settle:
  a promise resolves or rejects.
\<close>

datatype 'a promise = Resolved 'a | Rejected js_error

text \<open>\<^verbatim>\<open>a || d\<close> on an optional string: undefined, null and the empty string are falsy.\<close>

definition or_else :: "string option \<Rightarrow> string \<Rightarrow> string" where
  "or_else a d = (case a of None \<Rightarrow> d | Some s \<Rightarrow> if s = [] then d else s)"

text \<open>\<^verbatim>\<open>a ?? d\<close>: only undefined and null give the default.\<close>

definition nullish :: "string option \<Rightarrow> string \<Rightarrow> string" where
  "nullish a d = (case a of None \<Rightarrow> d | Some s \<Rightarrow> s)"

text \<open>An optional string inside a template literal.\<close>

definition template :: "string option \<Rightarrow> string" where
  "template a = (case a of None \<Rightarrow> ''undefined'' | Some s \<Rightarrow> s)"

text \<open>Truthiness of an optional string: \<^verbatim>\<open>!x\<close> is true for undefined, null and \<^verbatim>\<open>""\<close>.\<close>

definition falsy :: "string option \<Rightarrow> bool" where
  "falsy a = (case a of None \<Rightarrow> True | Some s \<Rightarrow> s = [])"

subsection \<open>Numbers\<close>

text \<open>
  A JavaScript number as far as the code uses one: it is obtained by \<^verbatim>\<open>parseFloat\<close>,
  tested with \<^verbatim>\<open>isNaN\<close>, compared with \<^verbatim>\<open><\<close> and \<^verbatim>\<open><=\<close>, and printed in a
  template literal. A finite double is the rational it denotes (both zeros are \<open>0\<close>);
  every comparison with NaN is false.
\<close>

datatype js_number = NaN | NegInfinity | Finite rat | PosInfinity

fun js_less :: "js_number \<Rightarrow> js_number \<Rightarrow> bool" where
  "js_less (Finite a) (Finite b) = (a < b)"
| "js_less (Finite a) PosInfinity = True"
| "js_less NegInfinity (Finite b) = True"
| "js_less NegInfinity PosInfinity = True"
| "js_less _ _ = False"

definition js_less_eq :: "js_number \<Rightarrow> js_number \<Rightarrow> bool" where
  "js_less_eq a b = (a \<noteq> NaN \<and> b \<noteq> NaN \<and> (js_less a b \<or> a = b))"

definition isNaN :: "js_number \<Rightarrow> bool" where
  "isNaN a = (a = NaN)"

text \<open>
  The runtime's own \<^verbatim>\<open>parseFloat\<close> and number-to-string conversion are parameters of
  the model, so that what is proved holds for the rounding of any engine.
\<close>

record js_runtime =
  parseFloat :: "string \<Rightarrow> js_number"
  numberToString :: "js_number \<Rightarrow> string"

section \<open>Data model of the bounty client\<close>

text \<open>
  Modelled from the spec: the declarations of \<^verbatim>\<open>BountyProgram\<close> and \<^verbatim>\<open>BountyClaim\<close>
  (\<^verbatim>\<open>types/bounty.types\<close>) and of the responses (\<^verbatim>\<open>types/hive.types\<close>); the fields are
  those the contract reads and writes. The prize pool is kept as the string its
  \<^verbatim>\<open>toString()\<close> gives, which is all the contract reads of it.
\<close>

datatype bounty_status = OPEN | CLAIMED | APPROVED | PAID | CANCELLED

record bounty_fields =
  title :: string
  description :: string
  githubLink :: string
  prizePool :: string

record BountyProgram = bounty_fields +
  id_field :: string
  creator :: string
  status :: bounty_status
  created :: string

record BountyClaim =
  bountyId :: string
  solver :: string
  pullRequestUrl :: string
  mergeCommitHash :: string
  timestamp :: string
  githubUsername :: string

record TransactionResponse =
  success :: bool
  message :: string
  txId :: "string option"

text \<open>The signer's answer: \<^verbatim>\<open>response.success\<close>, \<^verbatim>\<open>response.result?.id\<close>, \<^verbatim>\<open>response.error\<close>.\<close>

record KeychainResponse =
  kc_success :: bool
  kc_result_id :: "string option"
  kc_error :: "string option"

text \<open>
  The object handed to \<^verbatim>\<open>JSON.stringify\<close> for signing, by its \<^verbatim>\<open>type\<close> tag. For
  \<^verbatim>\<open>bounty_create\<close> the data are creator, status, creation time and the caller's fields;
  for \<^verbatim>\<open>bounty_approve\<close> they are bountyId, approver, solver, amount and timestamp.
\<close>

datatype payload =
    bounty_create string bounty_status string bounty_fields
  | bounty_claim BountyClaim
  | bounty_approve string string string string string

text \<open>The body of the POST to the escrow service.\<close>

record release_request =
  req_to :: "string option"
  req_amount :: "string option"
  req_bountyId :: "string option"
  req_requester :: "string option"
  req_memo :: "string option"

text \<open>Every call that leaves the browser, in the order it is made.\<close>

datatype event =
    Call_getAccounts "string list"
  | Call_isIssueClosed string string nat
  | Call_getPullRequestDetails string string nat
  | Call_isPRLinkedToIssue string string nat nat
  | Call_requestCustomJson string string string payload string
  | Call_sendHiveTokens string string string string
  | Call_escrow_post release_request

section \<open>Collaborators of the bounty client\<close>

text \<open>
  The code-host helpers of \<^verbatim>\<open>utils/github\<close> are parameters of the model: what they
  answer is the environment's choice. \<^verbatim>\<open>parseGitHubUrl\<close> makes no call and gives
  \<^verbatim>\<open>null\<close> for a URL that is not of an issue or a pull request; the other three are
  awaited.
\<close>

record github_url =
  owner :: string
  repo :: string
  number :: nat

record github_user =
  login :: string

record pr_details =
  merged :: bool
  user :: "github_user option"
  mergeCommitSha :: "string option"

record github_api =
  parseGitHubUrl :: "string \<Rightarrow> github_url option"
  isIssueClosed :: "string \<Rightarrow> string \<Rightarrow> nat \<Rightarrow> bool promise"
  getPullRequestDetails :: "string \<Rightarrow> string \<Rightarrow> nat \<Rightarrow> pr_details promise"
  isPRLinkedToIssue :: "string \<Rightarrow> string \<Rightarrow> nat \<Rightarrow> nat \<Rightarrow> bool promise"

text \<open>
  The signing extension. \<^verbatim>\<open>requestCustomJson\<close> either throws while it is called or
  invokes the callback once with a response.
\<close>

datatype keychain_reply = Callback KeychainResponse | Throws js_error

record window =
  hive_keychain :: "(string \<Rightarrow> string \<Rightarrow> string \<Rightarrow> payload \<Rightarrow> string \<Rightarrow> keychain_reply) option"

text \<open>Reading a property of \<^verbatim>\<open>undefined\<close>, as V8 words it.\<close>

definition undefined_property :: "string \<Rightarrow> js_error" where
  "undefined_property p =
     TypeError (Some (''Cannot read properties of undefined (reading '' @ [CHR 0x27] @ p @ [CHR 0x27] @ '')''))"

text \<open>
  \<^verbatim>\<open>new Promise((resolve) => { window.hive_keychain.requestCustomJson(..., cb) })\<close>
  without a check of the extension: an executor that throws rejects the promise; the
  request is recorded only when the extension is there to receive it.
\<close>

definition keychain_promise ::
  "window \<Rightarrow> string \<Rightarrow> string \<Rightarrow> string \<Rightarrow> payload \<Rightarrow> string \<Rightarrow>
     (KeychainResponse \<Rightarrow> TransactionResponse) \<Rightarrow> TransactionResponse promise \<times> event list" where
  "keychain_promise win u i k p l cb =
     (case hive_keychain win of
        None \<Rightarrow> (Rejected (undefined_property ''requestCustomJson''), [])
      | Some requestCustomJson \<Rightarrow>
          (case requestCustomJson u i k p l of
             Throws e \<Rightarrow> (Rejected e, [Call_requestCustomJson u i k p l])
           | Callback response \<Rightarrow> (Resolved (cb response), [Call_requestCustomJson u i k p l])))"

text \<open>Sequencing: the calls of a later step follow those already made.\<close>

definition after :: "event list \<Rightarrow> 'a \<times> event list \<Rightarrow> 'a \<times> event list" where
  "after es r = (fst r, es @ snd r)"

section \<open>BountyContract.claimBounty\<close>

text \<open>
  The method's \<^verbatim>\<open>catch\<close> block. It receives what an awaited helper rejects with; the
  promise of step 7 is returned without \<^verbatim>\<open>await\<close>, so its rejection passes the
  \<^verbatim>\<open>catch\<close> by and reaches the caller.
\<close>

definition claim_catch :: "js_error \<Rightarrow> TransactionResponse" where
  "claim_catch error =
     \<lparr>success = False, message = or_else (err_message error) ''Error processing claim'', txId = None\<rparr>"

definition claim_callback :: "KeychainResponse \<Rightarrow> TransactionResponse" where
  "claim_callback response =
     (if kc_success response
      then \<lparr>success = True,
            message = ''Claim submitted successfully. The bounty creator will review your claim.'',
            txId = Some (nullish (kc_result_id response) ''unknown'')\<rparr>
      else \<lparr>success = False,
            message = or_else (kc_error response) ''Failed to submit claim'',
            txId = None\<rparr>)"

text \<open>
  \<^verbatim>\<open>now\<close> is what \<^verbatim>\<open>new Date().toISOString()\<close> gives; \<^verbatim>\<open>username\<close> is the field set
  by the constructor.
\<close>

definition claimBounty ::
  "github_api \<Rightarrow> window \<Rightarrow> string \<Rightarrow> string \<Rightarrow> string \<Rightarrow> BountyProgram \<Rightarrow> string \<Rightarrow>
     TransactionResponse promise \<times> event list" where
  "claimBounty gh win now username bounty_id bountyData pr_url =
     (case parseGitHubUrl gh (githubLink bountyData) of
        None \<Rightarrow> (Resolved \<lparr>success = False, message = ''Invalid GitHub URLs'', txId = None\<rparr>, [])
      | Some issueUrlInfo \<Rightarrow>
     (case parseGitHubUrl gh pr_url of
        None \<Rightarrow> (Resolved \<lparr>success = False, message = ''Invalid GitHub URLs'', txId = None\<rparr>, [])
      | Some prUrlInfo \<Rightarrow>
     if owner issueUrlInfo \<noteq> owner prUrlInfo \<or> repo issueUrlInfo \<noteq> repo prUrlInfo
     then (Resolved \<lparr>success = False,
             message = ''Pull request must be in the same repository as the issue'',
             txId = None\<rparr>, [])
     else after [Call_isIssueClosed (owner issueUrlInfo) (repo issueUrlInfo) (number issueUrlInfo)]
     (case isIssueClosed gh (owner issueUrlInfo) (repo issueUrlInfo) (number issueUrlInfo) of
        Rejected error \<Rightarrow> (Resolved (claim_catch error), [])
      | Resolved isIssueResolved \<Rightarrow>
     if \<not> isIssueResolved
     then (Resolved \<lparr>success = False,
             message = ''The issue must be closed before claiming the bounty'',
             txId = None\<rparr>, [])
     else after [Call_getPullRequestDetails (owner prUrlInfo) (repo prUrlInfo) (number prUrlInfo)]
     (case getPullRequestDetails gh (owner prUrlInfo) (repo prUrlInfo) (number prUrlInfo) of
        Rejected error \<Rightarrow> (Resolved (claim_catch error), [])
      | Resolved prDetails \<Rightarrow>
     if \<not> merged prDetails
     then (Resolved \<lparr>success = False,
             message = ''The pull request must be merged before claiming the bounty'',
             txId = None\<rparr>, [])
     else
     (case user prDetails of
        None \<Rightarrow> (Resolved \<lparr>success = False,
                    message = ''Could not verify pull request creator'',
                    txId = None\<rparr>, [])
      | Some pr_user \<Rightarrow>
     after [Call_isPRLinkedToIssue (owner issueUrlInfo) (repo issueUrlInfo)
              (number prUrlInfo) (number issueUrlInfo)]
     (case isPRLinkedToIssue gh (owner issueUrlInfo) (repo issueUrlInfo)
             (number prUrlInfo) (number issueUrlInfo) of
        Rejected error \<Rightarrow> (Resolved (claim_catch error), [])
      | Resolved isPRLinked \<Rightarrow>
     if \<not> isPRLinked
     then (Resolved \<lparr>success = False,
             message = ''The pull request must reference the issue it resolves'',
             txId = None\<rparr>, [])
     else
       keychain_promise win username ''dev-bounties'' ''Active''
         (bounty_claim
            \<lparr>bountyId = bounty_id, solver = username, pullRequestUrl = pr_url,
             mergeCommitHash = or_else (mergeCommitSha prDetails) [],
             timestamp = now, githubUsername = login pr_user\<rparr>)
         ''Claim Development Bounty'' claim_callback))))))"

section \<open>BountyContract.createBounty\<close>

text \<open>
  An account as the ledger returns it; \<open>balance\<close> is what \<^verbatim>\<open>String(account.balance)\<close>
  gives. A null answer of \<^verbatim>\<open>getAccounts\<close> takes the branch of the empty array, and is
  modelled by it.
\<close>

record account =
  name :: string
  balance :: string
  hbd_balance :: string

text \<open>
  The ledger client of \<^verbatim>\<open>config/hive.config\<close> and the helper \<^verbatim>\<open>sendHiveTokens\<close> of
  \<^verbatim>\<open>utils/hive\<close> (from, to, amount, memo) are parameters, with the configured
  \<^verbatim>\<open>CONTRACT_ACCOUNT\<close>.
\<close>

record hive_config =
  getAccounts :: "string list \<Rightarrow> account list promise"
  sendHiveTokens :: "string \<Rightarrow> string \<Rightarrow> string \<Rightarrow> string \<Rightarrow> TransactionResponse promise"
  CONTRACT_ACCOUNT :: string

definition create_catch :: "js_error \<Rightarrow> TransactionResponse" where
  "create_catch error =
     \<lparr>success = False,
      message = ''Failed to create bounty: '' @ template (err_message error),
      txId = None\<rparr>"

text \<open>
  The callback given to the signer: on a signed record it transfers the prize pool, and
  it reports a failed or throwing transfer with the identifier of the record.
\<close>

definition create_callback ::
  "hive_config \<Rightarrow> string \<Rightarrow> bounty_fields \<Rightarrow> KeychainResponse \<Rightarrow>
     TransactionResponse promise \<times> event list" where
  "create_callback hive username bountyData response =
     (if kc_success response
      then after [Call_sendHiveTokens username (CONTRACT_ACCOUNT hive) (prizePool bountyData)
                    (''bounty-create-'' @ nullish (kc_result_id response) ''unknown'')]
        (case sendHiveTokens hive username (CONTRACT_ACCOUNT hive) (prizePool bountyData)
                (''bounty-create-'' @ nullish (kc_result_id response) ''unknown'') of
           Rejected error \<Rightarrow>
             (Resolved \<lparr>success = False,
                message = ''Bounty created but funding failed: '' @ template (err_message error)
                          @ ''. Please try funding manually.'',
                txId = Some (nullish (kc_result_id response) ''unknown'')\<rparr>, [])
         | Resolved transferResult \<Rightarrow>
             if success transferResult
             then (Resolved \<lparr>success = True,
                     message = ''Bounty created and funded successfully'',
                     txId = Some (nullish (kc_result_id response) ''unknown'')\<rparr>, [])
             else (Resolved \<lparr>success = False,
                     message = ''Bounty created but funding failed: '' @ message transferResult
                               @ ''. Please try funding manually.'',
                     txId = Some (nullish (kc_result_id response) ''unknown'')\<rparr>, []))
      else (Resolved \<lparr>success = False,
              message = or_else (kc_error response) ''Failed to create bounty'',
              txId = None\<rparr>, []))"

definition createBounty ::
  "js_runtime \<Rightarrow> hive_config \<Rightarrow> window \<Rightarrow> string \<Rightarrow> string \<Rightarrow> bounty_fields \<Rightarrow>
     TransactionResponse promise \<times> event list" where
  "createBounty rt hive win now username bountyData =
     after [Call_getAccounts [CONTRACT_ACCOUNT hive]]
     (case getAccounts hive [CONTRACT_ACCOUNT hive] of
        Rejected error \<Rightarrow> (Resolved (create_catch error), [])
      | Resolved contractAccounts \<Rightarrow>
     if contractAccounts = []
     then (Resolved \<lparr>success = False,
             message = ''Contract account '' @ CONTRACT_ACCOUNT hive @ '' does not exist'',
             txId = None\<rparr>, [])
     else after [Call_getAccounts [username]]
     (case getAccounts hive [username] of
        Rejected error \<Rightarrow> (Resolved (create_catch error), [])
      | Resolved accounts \<Rightarrow>
     (case accounts of
        [] \<Rightarrow> (Resolved \<lparr>success = False,
                  message = ''Could not fetch account information'',
                  txId = None\<rparr>, [])
      | account # _ \<Rightarrow>
     let userBalance = parseFloat rt (balance account);
         bountyAmount = parseFloat rt (prizePool bountyData)
     in
     if js_less userBalance bountyAmount
     then (Resolved \<lparr>success = False,
             message = ''Insufficient balance. You have '' @ numberToString rt userBalance
                       @ '' HIVE but the bounty requires '' @ numberToString rt bountyAmount
                       @ '' HIVE'',
             txId = None\<rparr>, [])
     else
     (case hive_keychain win of
        None \<Rightarrow> (Resolved \<lparr>success = False,
                    message = ''Hive Keychain extension not found'',
                    txId = None\<rparr>, [])
      | Some requestCustomJson \<Rightarrow>
     after [Call_requestCustomJson username ''dev-bounties'' ''Active''
              (bounty_create username OPEN now bountyData) ''Create Development Bounty'']
     (case requestCustomJson username ''dev-bounties'' ''Active''
             (bounty_create username OPEN now bountyData) ''Create Development Bounty'' of
        Throws e \<Rightarrow> (Rejected e, [])
      | Callback response \<Rightarrow> create_callback hive username bountyData response)))))"

section \<open>The escrow client: releaseEscrowFunds\<close>

text \<open>What the escrow service answers, as JSON.\<close>

record api_body =
  body_success :: bool
  body_message :: "string option"
  transaction_id :: "string option"
  body_balance :: "string option"
  body_hbd_balance :: "string option"

text \<open>
  \<open>post\<close> is \<^verbatim>\<open>escrowClient.post('/release', body)\<close>: it resolves with the body of a
  2xx answer and rejects otherwise. The call to \<^verbatim>\<open>console.log\<close> is left out.
\<close>

definition releaseEscrowFunds ::
  "(release_request \<Rightarrow> api_body promise) \<Rightarrow> string \<Rightarrow> string \<Rightarrow> string \<Rightarrow> string \<Rightarrow>
     string option \<Rightarrow> TransactionResponse promise \<times> event list" where
  "releaseEscrowFunds post to amount bounty_id requester memo =
     (let request = \<lparr>req_to = Some to, req_amount = Some amount, req_bountyId = Some bounty_id,
                     req_requester = Some requester, req_memo = memo\<rparr>
      in after [Call_escrow_post request]
        (case post request of
           Resolved data \<Rightarrow>
             if body_success data
             then (Resolved \<lparr>success = True,
                     message = or_else (body_message data) ''Funds released successfully'',
                     txId = transaction_id data\<rparr>, [])
             else (Resolved \<lparr>success = False,
                     message = or_else (body_message data) ''Failed to release funds'',
                     txId = None\<rparr>, [])
         | Rejected err \<Rightarrow>
             (Resolved \<lparr>success = False,
                message = or_else (response_data_message err)
                            (or_else (err_message err) ''Failed to release funds''),
                txId = None\<rparr>, [])))"

section \<open>BountyContract.verifyAndPayBounty\<close>

definition approve_callback :: "KeychainResponse \<Rightarrow> TransactionResponse" where
  "approve_callback response =
     (if kc_success response
      then \<lparr>success = True,
            message = ''Solution approval recorded on blockchain'',
            txId = Some (nullish (kc_result_id response) ''unknown'')\<rparr>
      else \<lparr>success = False,
            message = or_else (kc_error response) ''Failed to record approval'',
            txId = None\<rparr>)"

text \<open>Phase 1, the promise the method awaits.\<close>

definition approval_phase ::
  "window \<Rightarrow> string \<Rightarrow> string \<Rightarrow> string \<Rightarrow> BountyClaim \<Rightarrow> string \<Rightarrow>
     TransactionResponse promise \<times> event list" where
  "approval_phase win now username bounty_id claim bountyAmount =
     keychain_promise win username ''dev-bounties'' ''Active''
       (bounty_approve bounty_id username (solver claim) bountyAmount now)
       ''Approve Bounty Solution'' approve_callback"

text \<open>
  The promise of phase 1 is awaited inside \<^verbatim>\<open>try\<close>, so its rejection is caught; the
  result of \<^verbatim>\<open>releaseEscrowFunds\<close> is returned as it is.
\<close>

definition verifyAndPayBounty ::
  "window \<Rightarrow> (release_request \<Rightarrow> api_body promise) \<Rightarrow> string \<Rightarrow> string \<Rightarrow> string \<Rightarrow>
     BountyClaim \<Rightarrow> string \<Rightarrow> TransactionResponse promise \<times> event list" where
  "verifyAndPayBounty win post now username bounty_id claim bountyAmount =
     (case approval_phase win now username bounty_id claim bountyAmount of
        (Rejected error, calls) \<Rightarrow>
          (Resolved \<lparr>success = False,
             message = ''Error processing payment: '' @ template (err_message error),
             txId = None\<rparr>, calls)
      | (Resolved approvalResult, calls) \<Rightarrow>
          if \<not> success approvalResult
          then (Resolved approvalResult, calls)
          else after calls
            (releaseEscrowFunds post (solver claim) bountyAmount bounty_id username
               (Some (''Bounty payment for '' @ bounty_id))))"

section \<open>The escrow server\<close>

subsection \<open>Configuration read at startup\<close>

datatype private_key = PrivateKey string

record process_env =
  env_ESCROW_ACCOUNT :: "string option"
  env_ACTIVE_KEY :: "string option"
  env_API_KEY :: "string option"

record server_config =
  ESCROW_ACCOUNT :: "string option"
  ACTIVE_KEY :: "private_key option"
  API_KEY :: string

text \<open>
  \<^verbatim>\<open>PrivateKey.from\<close> is the library's and may throw on a malformed key: the key then
  stays \<^verbatim>\<open>null\<close>, as it does when the variable is unset or empty.
\<close>

definition load_ACTIVE_KEY :: "(string \<Rightarrow> js_error + private_key) \<Rightarrow> string option \<Rightarrow> private_key option" where
  "load_ACTIVE_KEY PrivateKey_from v =
     (case v of
        None \<Rightarrow> None
      | Some s \<Rightarrow> if s = [] then None
                  else (case PrivateKey_from s of Inl error \<Rightarrow> None | Inr k \<Rightarrow> Some k))"

definition startup :: "(string \<Rightarrow> js_error + private_key) \<Rightarrow> process_env \<Rightarrow> server_config" where
  "startup PrivateKey_from env =
     \<lparr>ESCROW_ACCOUNT = env_ESCROW_ACCOUNT env,
      ACTIVE_KEY = load_ACTIVE_KEY PrivateKey_from (env_ACTIVE_KEY env),
      API_KEY = or_else (env_API_KEY env) ''your-api-key''\<rparr>"

subsection \<open>Requests, responses and the ledger\<close>

record http_request =
  x_api_key :: "string option"
  body :: release_request

record http_response =
  status :: nat
  json :: api_body

text \<open>The \<^verbatim>\<open>transfer\<close> operation: from, to, amount, memo.\<close>

datatype operation = transfer string string string string

text \<open>
  The server's ledger client: the account query and the broadcast, which resolves with
  the \<^verbatim>\<open>id\<close> of the transaction.
\<close>

record ledger =
  database_getAccounts :: "string list \<Rightarrow> account list promise"
  broadcast_sendOperations :: "operation list \<Rightarrow> private_key \<Rightarrow> string promise"

text \<open>Every call the server makes to the ledger, in order.\<close>

datatype ledger_call =
    Query_getAccounts "string list"
  | Broadcast_sendOperations "operation list" private_key

definition reply :: "nat \<Rightarrow> bool \<Rightarrow> string option \<Rightarrow> http_response" where
  "reply code ok msg =
     \<lparr>status = code,
      json = \<lparr>body_success = ok, body_message = msg, transaction_id = None,
              body_balance = None, body_hbd_balance = None\<rparr>\<rparr>"

subsection \<open>verifyApiKey\<close>

definition verifyApiKey ::
  "server_config \<Rightarrow> http_request \<Rightarrow> http_response \<times> ledger_call list \<Rightarrow>
     http_response \<times> ledger_call list" where
  "verifyApiKey cfg req next =
     (let providedKey = x_api_key req
      in if \<not> falsy providedKey \<and> providedKey = Some (API_KEY cfg)
         then next
         else (reply 401 False (Some ''Unauthorized''), []))"

subsection \<open>GET /api/balance\<close>

definition balance_handler :: "server_config \<Rightarrow> ledger \<Rightarrow> http_response \<times> ledger_call list" where
  "balance_handler cfg client =
     (if falsy (ESCROW_ACCOUNT cfg)
      then (reply 500 False (Some ''Escrow account not configured''), [])
      else
        (case database_getAccounts client [the (ESCROW_ACCOUNT cfg)] of
           Rejected error \<Rightarrow>
             (reply 500 False (err_message error), [Query_getAccounts [the (ESCROW_ACCOUNT cfg)]])
         | Resolved accounts \<Rightarrow>
             (case accounts of
                a # _ \<Rightarrow>
                  (\<lparr>status = 200,
                    json = \<lparr>body_success = True, body_message = None, transaction_id = None,
                            body_balance = Some (balance a),
                            body_hbd_balance = Some (hbd_balance a)\<rparr>\<rparr>,
                   [Query_getAccounts [the (ESCROW_ACCOUNT cfg)]])
              | [] \<Rightarrow>
                  (reply 404 False (Some ''Account not found''),
                   [Query_getAccounts [the (ESCROW_ACCOUNT cfg)]]))))"

definition get_api_balance ::
  "server_config \<Rightarrow> ledger \<Rightarrow> http_request \<Rightarrow> http_response \<times> ledger_call list" where
  "get_api_balance cfg client req = verifyApiKey cfg req (balance_handler cfg client)"

subsection \<open>POST /api/release\<close>

text \<open>
  The fields of the body are strings or absent. Past the check of the required
  parameters \<open>to\<close>, \<open>amount\<close>, \<open>bountyId\<close> and \<open>requester\<close> are present and not empty, and
  past the check of the configuration so is the escrow account: \<open>the\<close> reads them there.
\<close>

definition release_handler ::
  "js_runtime \<Rightarrow> server_config \<Rightarrow> ledger \<Rightarrow> release_request \<Rightarrow>
     http_response \<times> ledger_call list" where
  "release_handler rt cfg client b =
     (if falsy (req_to b) \<or> falsy (req_amount b) \<or> falsy (req_bountyId b) \<or> falsy (req_requester b)
      then (reply 400 False (Some ''Missing required parameters''), [])
      else if falsy (ESCROW_ACCOUNT cfg)
      then (reply 500 False (Some ''Escrow account not properly configured''), [])
      else
     (case ACTIVE_KEY cfg of
        None \<Rightarrow> (reply 500 False (Some ''Private key not configured or invalid''), [])
      | Some key \<Rightarrow>
     let escrow = the (ESCROW_ACCOUNT cfg); to = the (req_to b); amount = the (req_amount b);
         bounty_id = the (req_bountyId b); requester = the (req_requester b)
     in
     (case database_getAccounts client [escrow] of
        Rejected error \<Rightarrow> (reply 500 False (err_message error), [Query_getAccounts [escrow]])
      | Resolved accounts \<Rightarrow>
     (case accounts of
        [] \<Rightarrow> (reply 404 False (Some ''Escrow account not found''), [Query_getAccounts [escrow]])
      | a # _ \<Rightarrow>
     let escrow_balance = parseFloat rt (balance a);
         requestedAmount = parseFloat rt amount
     in
     if isNaN requestedAmount \<or> js_less_eq requestedAmount (Finite 0)
     then (reply 400 False (Some ''Invalid amount''), [Query_getAccounts [escrow]])
     else if js_less escrow_balance requestedAmount
     then (reply 400 False
             (Some (''Insufficient balance in escrow account. Available: ''
                    @ numberToString rt escrow_balance @ '' HIVE, Requested: ''
                    @ numberToString rt requestedAmount @ '' HIVE'')),
           [Query_getAccounts [escrow]])
     else
     let operations =
           [transfer escrow to (amount @ '' HIVE'')
              (or_else (req_memo b)
                 (''Bounty payment for '' @ bounty_id @ '' requested by '' @ requester))]
     in
     (case broadcast_sendOperations client operations key of
        Rejected error \<Rightarrow>
          (reply 500 False (err_message error),
           [Query_getAccounts [escrow], Broadcast_sendOperations operations key])
      | Resolved result_id \<Rightarrow>
          (\<lparr>status = 200,
            json = \<lparr>body_success = True,
                    body_message = Some (''Successfully sent '' @ amount @ '' HIVE to @'' @ to),
                    transaction_id = Some result_id,
                    body_balance = None, body_hbd_balance = None\<rparr>\<rparr>,
           [Query_getAccounts [escrow], Broadcast_sendOperations operations key]))))))"

definition post_api_release ::
  "js_runtime \<Rightarrow> server_config \<Rightarrow> ledger \<Rightarrow> http_request \<Rightarrow> http_response \<times> ledger_call list" where
  "post_api_release rt cfg client req =
     verifyApiKey cfg req (release_handler rt cfg client (body req))"

section \<open>The client's HTTP transport against the server\<close>

text \<open>
  \<^verbatim>\<open>escrowClient.post\<close> when the service is reached: the request carries the configured
  \<^verbatim>\<open>X-API-Key\<close>; an answer with a status from 200 to 299 resolves with its body, any
  other rejects with an error that holds the body (the HTTP library's default).
\<close>

definition digit_char :: "nat \<Rightarrow> char" where
  "digit_char d = ''0123456789'' ! d"

fun nat_digits :: "nat \<Rightarrow> string" where
  "nat_digits n = (if n < 10 then [digit_char n]
                   else nat_digits (n div 10) @ [digit_char (n mod 10)])"

declare nat_digits.simps [simp del]

definition escrowClient_post ::
  "string \<Rightarrow> (http_request \<Rightarrow> http_response \<times> ledger_call list) \<Rightarrow> release_request \<Rightarrow>
     api_body promise" where
  "escrowClient_post ESCROW_API_KEY service b =
     (let answer = fst (service \<lparr>x_api_key = Some ESCROW_API_KEY, body = b\<rparr>)
      in if 200 \<le> status answer \<and> status answer < 300
         then Resolved (json answer)
         else Rejected (AxiosError
                (Some (''Request failed with status code '' @ nat_digits (status answer)))
                (body_message (json answer))))"

section \<open>A runtime and environments for the scenarios\<close>

text \<open>
  \<^verbatim>\<open>parseFloat\<close> on decimal literals: leading white space, a sign, \<^verbatim>\<open>Infinity\<close> or
  digits with an optional fraction and exponent, read as the longest such prefix. The
  value is exact, where an engine rounds to the nearest double; the scenarios use it
  on numbers a double holds exactly.
\<close>

definition is_digit :: "char \<Rightarrow> bool" where
  "is_digit c = (48 \<le> (of_char c :: nat) \<and> (of_char c :: nat) \<le> 57)"

definition is_space :: "char \<Rightarrow> bool" where
  "is_space c = ((of_char c :: nat) \<in> {9, 10, 11, 12, 13, 32})"

definition digits_value :: "string \<Rightarrow> nat" where
  "digits_value ds = foldl (\<lambda>n c. 10 * n + (of_char c - 48)) 0 ds"

definition exponent_part :: "string \<Rightarrow> int" where
  "exponent_part s =
     (case s of
        [] \<Rightarrow> 0
      | e # r \<Rightarrow>
          if e \<noteq> CHR ''e'' \<and> e \<noteq> CHR ''E'' then 0
          else (case r of
                  [] \<Rightarrow> 0
                | c # r' \<Rightarrow>
                    if c = CHR ''-'' then - int (digits_value (takeWhile is_digit r'))
                    else if c = CHR ''+'' then int (digits_value (takeWhile is_digit r'))
                    else int (digits_value (takeWhile is_digit r))))"

definition scale10 :: "nat \<Rightarrow> int \<Rightarrow> rat" where
  "scale10 m e = (if 0 \<le> e then of_nat m * 10 ^ nat e else of_nat m / 10 ^ nat (- e))"

definition unsigned_literal :: "string \<Rightarrow> js_number" where
  "unsigned_literal s =
     (if take 8 s = ''Infinity'' then PosInfinity
      else
        let ip = takeWhile is_digit s; r = dropWhile is_digit s
        in case r of
             [] \<Rightarrow> if ip = [] then NaN else Finite (of_nat (digits_value ip))
           | c # r' \<Rightarrow>
               if c = CHR ''.''
               then let fp = takeWhile is_digit r'; r'' = dropWhile is_digit r'
                    in if ip = [] \<and> fp = [] then NaN
                       else Finite (scale10 (digits_value (ip @ fp))
                                      (exponent_part r'' - int (length fp)))
               else if ip = [] then NaN
               else Finite (scale10 (digits_value ip) (exponent_part r)))"

definition js_negate :: "js_number \<Rightarrow> js_number" where
  "js_negate a = (case a of NaN \<Rightarrow> NaN | NegInfinity \<Rightarrow> PosInfinity
                  | Finite q \<Rightarrow> Finite (- q) | PosInfinity \<Rightarrow> NegInfinity)"

definition parseFloat_decimal :: "string \<Rightarrow> js_number" where
  "parseFloat_decimal s =
     (case dropWhile is_space s of
        [] \<Rightarrow> NaN
      | c # r \<Rightarrow>
          if c = CHR ''-'' then js_negate (unsigned_literal r)
          else if c = CHR ''+'' then unsigned_literal r
          else unsigned_literal (c # r))"

text \<open>
  The printing of a number in decimal notation: the digits of its integer part and, of a
  fraction, at most twenty more. The scenarios print integers.
\<close>

fun fraction_digits :: "nat \<Rightarrow> rat \<Rightarrow> string" where
  "fraction_digits 0 q = []"
| "fraction_digits (Suc k) q =
     (if q = 0 then []
      else digit_char (nat \<lfloor>q * 10\<rfloor>) # fraction_digits k (q * 10 - of_int \<lfloor>q * 10\<rfloor>))"

definition numberToString_decimal :: "js_number \<Rightarrow> string" where
  "numberToString_decimal a =
     (case a of
        NaN \<Rightarrow> ''NaN''
      | NegInfinity \<Rightarrow> ''-Infinity''
      | PosInfinity \<Rightarrow> ''Infinity''
      | Finite q \<Rightarrow>
          (if q < 0 then ''-'' else []) @ nat_digits (nat \<lfloor>\<bar>q\<bar>\<rfloor>)
          @ (if \<bar>q\<bar> = of_int \<lfloor>\<bar>q\<bar>\<rfloor> then []
             else ''.'' @ fraction_digits 20 (\<bar>q\<bar> - of_int \<lfloor>\<bar>q\<bar>\<rfloor>)))"

definition decimal_runtime :: js_runtime where
  "decimal_runtime = \<lparr>parseFloat = parseFloat_decimal, numberToString = numberToString_decimal\<rparr>"

text \<open>
  The code host of the spec's second scenario: issue 5 and pull request 7 of
  \<^verbatim>\<open>owner/repo\<close>, and a pull request of another repository. The state of the issue, the
  details of the pull request and its link to the issue are chosen by the scenario.
\<close>

definition scenario_parse :: "string \<Rightarrow> github_url option" where
  "scenario_parse u =
     (if u = ''https://github.com/owner/repo/issues/5''
      then Some \<lparr>owner = ''owner'', repo = ''repo'', number = 5\<rparr>
      else if u = ''https://github.com/owner/repo/pull/7''
      then Some \<lparr>owner = ''owner'', repo = ''repo'', number = 7\<rparr>
      else if u = ''https://github.com/fork/repo/pull/7''
      then Some \<lparr>owner = ''fork'', repo = ''repo'', number = 7\<rparr>
      else None)"

definition scenario_github :: "bool \<Rightarrow> pr_details \<Rightarrow> bool \<Rightarrow> github_api" where
  "scenario_github issue_closed details linked =
     \<lparr>parseGitHubUrl = scenario_parse,
      isIssueClosed = (\<lambda>owner repo number. Resolved issue_closed),
      getPullRequestDetails = (\<lambda>owner repo number. Resolved details),
      isPRLinkedToIssue = (\<lambda>owner repo pr issue. Resolved linked)\<rparr>"

definition scenario_bounty :: BountyProgram where
  "scenario_bounty =
     \<lparr>title = ''Fix the parser'', description = ''See the issue'',
      githubLink = ''https://github.com/owner/repo/issues/5'', prizePool = ''30'',
      id_field = ''b1'', creator = ''bob'', status = OPEN, created = ''2025-01-01T00:00:00.000Z''\<rparr>"

definition merged_by :: "string \<Rightarrow> string option \<Rightarrow> pr_details" where
  "merged_by author sha = \<lparr>merged = True, user = Some \<lparr>login = author\<rparr>, mergeCommitSha = sha\<rparr>"

text \<open>A browser without the extension, and one whose extension answers every request alike.\<close>

definition no_keychain :: window where
  "no_keychain = \<lparr>hive_keychain = None\<rparr>"

definition keychain_answering :: "KeychainResponse \<Rightarrow> window" where
  "keychain_answering response =
     \<lparr>hive_keychain = Some (\<lambda>username id key json label. Callback response)\<rparr>"

definition signed_as :: "string \<Rightarrow> KeychainResponse" where
  "signed_as tx = \<lparr>kc_success = True, kc_result_id = Some tx, kc_error = None\<rparr>"

definition declined :: "string \<Rightarrow> KeychainResponse" where
  "declined reason = \<lparr>kc_success = False, kc_result_id = None, kc_error = Some reason\<rparr>"

text \<open>A ledger given by the accounts it holds, each with its balance.\<close>

definition accounts_of :: "(string \<times> string) list \<Rightarrow> string list \<Rightarrow> account list" where
  "accounts_of held names =
     concat (map (\<lambda>n. case map_of held n of
                          None \<Rightarrow> []
                        | Some b \<Rightarrow> [\<lparr>name = n, balance = b, hbd_balance = ''0.000 HBD''\<rparr>]) names)"

definition scenario_hive :: "(string \<times> string) list \<Rightarrow> hive_config" where
  "scenario_hive held =
     \<lparr>getAccounts = (\<lambda>names. Resolved (accounts_of held names)),
      sendHiveTokens = (\<lambda>from to amount memo.
         Resolved \<lparr>success = True, message = ''Transfer successful'', txId = Some ''tx-transfer''\<rparr>),
      CONTRACT_ACCOUNT = ''escrow''\<rparr>"

definition scenario_ledger :: "(string \<times> string) list \<Rightarrow> ledger" where
  "scenario_ledger held =
     \<lparr>database_getAccounts = (\<lambda>names. Resolved (accounts_of held names)),
      broadcast_sendOperations = (\<lambda>operations key. Resolved ''tx-release'')\<rparr>"

text \<open>The library's key parser in the scenarios: a key in WIF notation starts with 5.\<close>

definition scenario_PrivateKey_from :: "string \<Rightarrow> js_error + private_key" where
  "scenario_PrivateKey_from s =
     (if take 1 s = ''5'' then Inr (PrivateKey s)
      else Inl (Error (Some ''private key network id mismatch'')))"

definition release_of :: "string \<Rightarrow> string \<Rightarrow> release_request" where
  "release_of to amount =
     \<lparr>req_to = Some to, req_amount = Some amount, req_bountyId = Some ''b1'',
      req_requester = Some ''bob'', req_memo = None\<rparr>"

definition scenario_fields :: bounty_fields where
  "scenario_fields =
     \<lparr>title = ''Fix the parser'', description = ''See the issue'',
      githubLink = ''https://github.com/owner/repo/issues/5'', prizePool = ''30''\<rparr>"

definition scenario_claim :: BountyClaim where
  "scenario_claim =
     \<lparr>bountyId = ''b1'', solver = ''alice'',
      pullRequestUrl = ''https://github.com/owner/repo/pull/7'', mergeCommitHash = ''c0ffee'',
      timestamp = ''2025-01-02T00:00:00.000Z'', githubUsername = ''alice''\<rparr>"

text \<open>The server's environment, by the value of \<^verbatim>\<open>ACTIVE_KEY\<close>; no \<^verbatim>\<open>API_KEY\<close> is set.\<close>

definition scenario_env :: "string option \<Rightarrow> process_env" where
  "scenario_env key =
     \<lparr>env_ESCROW_ACCOUNT = Some ''escrow'', env_ACTIVE_KEY = key, env_API_KEY = None\<rparr>"

definition scenario_config :: "string option \<Rightarrow> server_config" where
  "scenario_config key = startup scenario_PrivateKey_from (scenario_env key)"

text \<open>A rejection by the contract: \<^verbatim>\<open>{ success: false, message }\<close>.\<close>

definition failure :: "string \<Rightarrow> TransactionResponse" where
  "failure m = \<lparr>success = False, message = m, txId = None\<rparr>"

section \<open>The preconditions of a release, as the spec names them\<close>

text \<open>
  The spec's preconditions of \<^verbatim>\<open>releaseFunds\<close>, on the values the handler computes:
  the four required parameters are present, the amount does not parse as a positive
  number, and the balance of the escrow account \<open>a\<close> is below the amount. The account
  \<open>a\<close> is the custodial one when it is the first the ledger returns for the configured
  name.
\<close>

definition required_parameters :: "release_request \<Rightarrow> bool" where
  "required_parameters b =
     (\<not> (falsy (req_to b) \<or> falsy (req_amount b) \<or> falsy (req_bountyId b) \<or> falsy (req_requester b)))"

definition amount_not_positive :: "js_runtime \<Rightarrow> release_request \<Rightarrow> bool" where
  "amount_not_positive rt b =
     (case req_amount b of
        None \<Rightarrow> True
      | Some amount \<Rightarrow> isNaN (parseFloat rt amount) \<or> js_less_eq (parseFloat rt amount) (Finite 0))"

definition balance_below :: "js_runtime \<Rightarrow> account \<Rightarrow> release_request \<Rightarrow> bool" where
  "balance_below rt a b =
     (case req_amount b of
        None \<Rightarrow> False
      | Some amount \<Rightarrow> js_less (parseFloat rt (balance a)) (parseFloat rt amount))"

definition escrow_account_found :: "server_config \<Rightarrow> ledger \<Rightarrow> account \<Rightarrow> bool" where
  "escrow_account_found cfg client a =
     (case ESCROW_ACCOUNT cfg of
        None \<Rightarrow> False
      | Some e \<Rightarrow> (case database_getAccounts client [e] of
                     Resolved accounts \<Rightarrow> (case accounts of [] \<Rightarrow> False | a' # _ \<Rightarrow> a' = a)
                   | Rejected error \<Rightarrow> False))"

section \<open>Evaluating the scenarios\<close>

lemmas scenario_github_defs =
  scenario_github_def scenario_parse_def scenario_bounty_def merged_by_def

lemmas scenario_server_defs =
  scenario_config_def scenario_env_def startup_def load_ACTIVE_KEY_def
  scenario_PrivateKey_from_def scenario_ledger_def accounts_of_def release_of_def

lemmas decimal_defs =
  decimal_runtime_def parseFloat_decimal_def unsigned_literal_def is_space_def is_digit_def
  js_negate_def digits_value_def exponent_part_def scale10_def numberToString_decimal_def
  digit_char_def nat_digits.simps

lemma parse_30: "parseFloat_decimal ''30'' = Finite 30"
  by (simp add: decimal_defs Let_def)

lemma parse_10: "parseFloat_decimal ''10.000 HIVE'' = Finite 10"
  by (simp add: decimal_defs Let_def)

lemma show_30: "numberToString_decimal (Finite 30) = ''30''"
  by (simp add: decimal_defs)

lemma show_10: "numberToString_decimal (Finite 10) = ''10''"
  by (simp add: decimal_defs)

lemma parse_minus_5: "parseFloat_decimal ''-5'' = Finite (- 5)"
  by (simp add: decimal_defs Let_def)

lemma minus_5_not_positive: "amount_not_positive decimal_runtime (release_of ''alice'' ''-5'')"
  by (simp add: amount_not_positive_def release_of_def decimal_runtime_def parse_minus_5
        isNaN_def js_less_eq_def)

section \<open>The order of the guards of claimBounty\<close>

text \<open>
  C1. The guards of \<open>claimBounty\<close> run in the order URL parse and same repository, issue
  closed, pull request merged (step 4 of the method, which also asks for the author of
  the pull request), pull request linked. The first guard that fails ends the call with
  \<open>success = False\<close> and its own message, and the calls made are exactly those of the
  guards before it and of the failing one: no later guard is evaluated and nothing is
  sent for signing. With an open issue the message is
  \<^verbatim>\<open>The issue must be closed before claiming the bounty\<close>.
\<close>

theorem claimBounty_guards_short_circuit:
  "let run = claimBounty gh win now username bounty_id bountyData pr_url;
       issue = parseGitHubUrl gh (githubLink bountyData);
       pr = parseGitHubUrl gh pr_url
   in (issue = None \<or> pr = None \<longrightarrow> run = (Resolved (failure ''Invalid GitHub URLs''), [])) \<and>
      (\<forall>i p. issue = Some i \<and> pr = Some p \<longrightarrow>
         (owner i \<noteq> owner p \<or> repo i \<noteq> repo p \<longrightarrow>
            run = (Resolved (failure ''Pull request must be in the same repository as the issue''), [])) \<and>
         (owner i = owner p \<and> repo i = repo p \<longrightarrow>
            (isIssueClosed gh (owner i) (repo i) (number i) = Resolved False \<longrightarrow>
               run = (Resolved (failure ''The issue must be closed before claiming the bounty''),
                      [Call_isIssueClosed (owner i) (repo i) (number i)])) \<and>
            (isIssueClosed gh (owner i) (repo i) (number i) = Resolved True \<longrightarrow>
               (\<forall>d. getPullRequestDetails gh (owner p) (repo p) (number p) = Resolved d \<longrightarrow>
                  (\<not> merged d \<longrightarrow>
                     run = (Resolved (failure ''The pull request must be merged before claiming the bounty''),
                            [Call_isIssueClosed (owner i) (repo i) (number i),
                             Call_getPullRequestDetails (owner p) (repo p) (number p)])) \<and>
                  (merged d \<and> user d = None \<longrightarrow>
                     run = (Resolved (failure ''Could not verify pull request creator''),
                            [Call_isIssueClosed (owner i) (repo i) (number i),
                             Call_getPullRequestDetails (owner p) (repo p) (number p)])) \<and>
                  (merged d \<and> user d \<noteq> None \<and>
                   isPRLinkedToIssue gh (owner i) (repo i) (number p) (number i) = Resolved False \<longrightarrow>
                     run = (Resolved (failure ''The pull request must reference the issue it resolves''),
                            [Call_isIssueClosed (owner i) (repo i) (number i),
                             Call_getPullRequestDetails (owner p) (repo p) (number p),
                             Call_isPRLinkedToIssue (owner i) (repo i) (number p) (number i)]))))))"
  unfolding Let_def claimBounty_def failure_def after_def
  by (auto split: option.splits)

text \<open>
  The second scenario of the spec: issue 5 of \<^verbatim>\<open>owner/repo\<close> is open and pull request 7
  of the same repository is claimed for it.
\<close>

theorem claimBounty_guards_short_circuit_witness:
  "parseGitHubUrl (scenario_github False (merged_by ''alice'' (Some ''c0ffee'')) True)
       (githubLink scenario_bounty) = Some \<lparr>owner = ''owner'', repo = ''repo'', number = 5\<rparr> \<and>
   isIssueClosed (scenario_github False (merged_by ''alice'' (Some ''c0ffee'')) True)
       ''owner'' ''repo'' 5 = Resolved False \<and>
   claimBounty (scenario_github False (merged_by ''alice'' (Some ''c0ffee'')) True)
       (keychain_answering (signed_as ''tx-claim'')) ''2025-01-02T00:00:00.000Z'' ''alice'' ''b1''
       scenario_bounty ''https://github.com/owner/repo/pull/7''
     = (Resolved (failure ''The issue must be closed before claiming the bounty''),
        [Call_isIssueClosed ''owner'' ''repo'' 5])"
  using claimBounty_guards_short_circuit
          [of "scenario_github False (merged_by ''alice'' (Some ''c0ffee'')) True"
              "keychain_answering (signed_as ''tx-claim'')" "''2025-01-02T00:00:00.000Z''"
              "''alice''" "''b1''" scenario_bounty "''https://github.com/owner/repo/pull/7''"]
  by (simp add: scenario_github_defs Let_def)

section \<open>The two phases of verifyAndPayBounty\<close>

lemma keychain_promise_calls:
  "Call_escrow_post r \<notin> set (snd (keychain_promise win u i k p l cb))"
  by (simp add: keychain_promise_def split: option.splits keychain_reply.splits)

text \<open>
  C2. \<open>verifyAndPayBounty\<close> asks for the approval attestation first. Phase 1 makes no call
  to the escrow service; when it ends in a failure result, that result is returned as
  it is and the calls made are those of phase 1 alone; when its promise rejects, the
  call ends in a failure with the calls of phase 1 alone. A call to the escrow service
  is made only after a successful phase 1, as the last call.
\<close>

theorem verifyAndPayBounty_two_phase:
  "let phase1 = approval_phase win now username bounty_id claim bountyAmount;
       run = verifyAndPayBounty win post now username bounty_id claim bountyAmount
   in (\<forall>r. Call_escrow_post r \<notin> set (snd phase1)) \<and>
      (\<forall>approvalResult. fst phase1 = Resolved approvalResult \<and> \<not> success approvalResult \<longrightarrow>
         run = (Resolved approvalResult, snd phase1)) \<and>
      (\<forall>error. fst phase1 = Rejected error \<longrightarrow>
         run = (Resolved (failure (''Error processing payment: '' @ template (err_message error))),
                snd phase1)) \<and>
      (\<forall>r. Call_escrow_post r \<in> set (snd run) \<longrightarrow>
         (\<exists>approvalResult. fst phase1 = Resolved approvalResult \<and> success approvalResult \<and>
            snd run = snd phase1 @ [Call_escrow_post r]))"
proof -
  obtain out calls where p: "approval_phase win now username bounty_id claim bountyAmount = (out, calls)"
    by (cases "approval_phase win now username bounty_id claim bountyAmount")
  have "Call_escrow_post r \<notin> set (snd (approval_phase win now username bounty_id claim bountyAmount))" for r
    unfolding approval_phase_def by (rule keychain_promise_calls)
  then have no_post: "Call_escrow_post r \<notin> set calls" for r
    by (simp add: p)
  show ?thesis
    unfolding Let_def verifyAndPayBounty_def p
    using no_post
    by (cases out) (auto simp: failure_def after_def releaseEscrowFunds_def Let_def split: promise.splits)
qed

text \<open>The approver declines in the extension; the escrow account could have paid.\<close>

theorem verifyAndPayBounty_two_phase_witness:
  "approval_phase (keychain_answering (declined ''user_cancel'')) ''2025-01-03T00:00:00.000Z''
       ''bob'' ''b1'' scenario_claim ''30''
     = (Resolved (failure ''user_cancel''),
        [Call_requestCustomJson ''bob'' ''dev-bounties'' ''Active''
           (bounty_approve ''b1'' ''bob'' ''alice'' ''30'' ''2025-01-03T00:00:00.000Z'')
           ''Approve Bounty Solution'']) \<and>
   verifyAndPayBounty (keychain_answering (declined ''user_cancel''))
       (escrowClient_post ''your-api-key''
          (post_api_release decimal_runtime (scenario_config (Some ''5Kactive''))
             (scenario_ledger [(''escrow'', ''100.000 HIVE'')])))
       ''2025-01-03T00:00:00.000Z'' ''bob'' ''b1'' scenario_claim ''30''
     = (Resolved (failure ''user_cancel''),
        [Call_requestCustomJson ''bob'' ''dev-bounties'' ''Active''
           (bounty_approve ''b1'' ''bob'' ''alice'' ''30'' ''2025-01-03T00:00:00.000Z'')
           ''Approve Bounty Solution''])"
  using verifyAndPayBounty_two_phase
          [of "keychain_answering (declined ''user_cancel'')" "''2025-01-03T00:00:00.000Z''"
              "''bob''" "''b1''" scenario_claim "''30''"
              "escrowClient_post ''your-api-key''
                 (post_api_release decimal_runtime (scenario_config (Some ''5Kactive''))
                    (scenario_ledger [(''escrow'', ''100.000 HIVE'')]))"]
  by (simp add: Let_def approval_phase_def keychain_promise_def keychain_answering_def
        declined_def approve_callback_def or_else_def failure_def scenario_claim_def)

section \<open>An approval that is not followed by the payment\<close>

text \<open>
  Whenever the approval is signed and the POST to the escrow service is rejected, the
  result is the failure built from the rejection; the identifier of the approval is
  not in it.
\<close>

lemma verifyAndPayBounty_failed_release:
  assumes "hive_keychain win = Some requestCustomJson"
    and "requestCustomJson username ''dev-bounties'' ''Active''
           (bounty_approve bounty_id username (solver claim) bountyAmount now)
           ''Approve Bounty Solution'' = Callback response"
    and "kc_success response"
    and "post \<lparr>req_to = Some (solver claim), req_amount = Some bountyAmount,
                req_bountyId = Some bounty_id, req_requester = Some username,
                req_memo = Some (''Bounty payment for '' @ bounty_id)\<rparr> = Rejected err"
  shows "fst (verifyAndPayBounty win post now username bounty_id claim bountyAmount)
           = Resolved \<lparr>success = False,
                message = or_else (response_data_message err)
                            (or_else (err_message err) ''Failed to release funds''),
                txId = None\<rparr>"
  using assms
  by (simp add: verifyAndPayBounty_def approval_phase_def keychain_promise_def approve_callback_def
        after_def releaseEscrowFunds_def Let_def)

lemma scenario_release_insufficient:
  "post_api_release decimal_runtime (scenario_config (Some ''5Kactive''))
     (scenario_ledger [(''escrow'', ''10.000 HIVE'')])
     \<lparr>x_api_key = Some ''your-api-key'',
      body = \<lparr>req_to = Some ''alice'', req_amount = Some ''30'', req_bountyId = Some ''b1'',
              req_requester = Some ''bob'', req_memo = Some ''Bounty payment for b1''\<rparr>\<rparr>
   = (reply 400 False
        (Some ''Insufficient balance in escrow account. Available: 10 HIVE, Requested: 30 HIVE''),
      [Query_getAccounts [''escrow'']])"
  by (simp add: post_api_release_def verifyApiKey_def release_handler_def scenario_server_defs
        falsy_def or_else_def Let_def decimal_runtime_def parse_30 parse_10 show_30 show_10
        isNaN_def js_less_eq_def)

text \<open>
  C3. The approver's extension signs the approval as \<^verbatim>\<open>tx-approve\<close>; the escrow account
  holds 10 HIVE and the bounty is 30, so the service refuses the release. The result of
  \<open>verifyAndPayBounty\<close> is the refusal of the service as \<open>releaseEscrowFunds\<close> reports it:
  it has no transaction identifier and its message does not mention the approval.
\<close>

theorem verifyAndPayBounty_unpaid_approval:
  "verifyAndPayBounty (keychain_answering (signed_as ''tx-approve''))
       (escrowClient_post ''your-api-key''
          (post_api_release decimal_runtime (scenario_config (Some ''5Kactive''))
             (scenario_ledger [(''escrow'', ''10.000 HIVE'')])))
       ''2025-01-03T00:00:00.000Z'' ''bob'' ''b1'' scenario_claim ''30''
     = (Resolved \<lparr>success = False,
          message = ''Insufficient balance in escrow account. Available: 10 HIVE, Requested: 30 HIVE'',
          txId = None\<rparr>,
        [Call_requestCustomJson ''bob'' ''dev-bounties'' ''Active''
           (bounty_approve ''b1'' ''bob'' ''alice'' ''30'' ''2025-01-03T00:00:00.000Z'')
           ''Approve Bounty Solution'',
         Call_escrow_post
           \<lparr>req_to = Some ''alice'', req_amount = Some ''30'', req_bountyId = Some ''b1'',
            req_requester = Some ''bob'', req_memo = Some ''Bounty payment for b1''\<rparr>])"
  by (simp add: verifyAndPayBounty_def approval_phase_def keychain_promise_def
        keychain_answering_def signed_as_def approve_callback_def nullish_def after_def
        releaseEscrowFunds_def Let_def escrowClient_post_def scenario_release_insufficient
        reply_def response_data_message_def or_else_def scenario_claim_def)

section \<open>A browser without the signing extension\<close>

text \<open>
  \<open>createBounty\<close> looks for the extension before it uses it, and \<open>verifyAndPayBounty\<close>
  awaits the promise that uses it: both end in a failure result.
\<close>

lemma createBounty_without_keychain:
  "createBounty decimal_runtime
       (scenario_hive [(''escrow'', ''0.000 HIVE''), (''bob'', ''100.000 HIVE'')])
       no_keychain ''2025-01-01T00:00:00.000Z'' ''bob''
       \<lparr>title = ''Fix the parser'', description = ''See the issue'',
        githubLink = ''https://github.com/owner/repo/issues/5'', prizePool = ''30''\<rparr>
     = (Resolved (failure ''Hive Keychain extension not found''),
        [Call_getAccounts [''escrow''], Call_getAccounts [''bob'']])"
  by (simp add: createBounty_def scenario_hive_def accounts_of_def after_def Let_def
        parse_30 no_keychain_def failure_def decimal_defs)

lemma verifyAndPayBounty_without_keychain:
  "verifyAndPayBounty no_keychain post now username bounty_id claim bountyAmount
     = (Resolved (failure (''Error processing payment: Cannot read properties of undefined (reading 'requestCustomJson')'')), [])"
  by (simp add: verifyAndPayBounty_def approval_phase_def keychain_promise_def no_keychain_def
        undefined_property_def template_def failure_def)

text \<open>\<open>claimBounty\<close> with every guard passed and no extension: the promise is rejected.\<close>

lemma claimBounty_without_keychain:
  assumes "parseGitHubUrl gh (githubLink bountyData) = Some i"
    and "parseGitHubUrl gh pr_url = Some p"
    and "owner i = owner p" and "repo i = repo p"
    and "isIssueClosed gh (owner i) (repo i) (number i) = Resolved True"
    and "getPullRequestDetails gh (owner p) (repo p) (number p) = Resolved d"
    and "merged d" and "user d = Some u"
    and "isPRLinkedToIssue gh (owner i) (repo i) (number p) (number i) = Resolved True"
    and "hive_keychain win = None"
  shows "fst (claimBounty gh win now username bounty_id bountyData pr_url)
           = Rejected (undefined_property ''requestCustomJson'')"
  using assms
  by (simp add: claimBounty_def after_def keychain_promise_def)

text \<open>
  C6. In a browser without the extension, a claim that passes every guard is not
  answered with a result: the promise \<open>claimBounty\<close> returns is rejected with the
  \<^verbatim>\<open>TypeError\<close> of the missing extension.
\<close>

theorem claimBounty_rejects_without_keychain:
  "claimBounty (scenario_github True (merged_by ''alice'' (Some ''c0ffee'')) True) no_keychain
       ''2025-01-02T00:00:00.000Z'' ''alice'' ''b1'' scenario_bounty
       ''https://github.com/owner/repo/pull/7''
     = (Rejected (TypeError (Some ''Cannot read properties of undefined (reading 'requestCustomJson')'')),
        [Call_isIssueClosed ''owner'' ''repo'' 5,
         Call_getPullRequestDetails ''owner'' ''repo'' 7,
         Call_isPRLinkedToIssue ''owner'' ''repo'' 7 5])"
  by (simp add: claimBounty_def scenario_github_defs after_def keychain_promise_def
        no_keychain_def undefined_property_def)

text \<open>The caller is left without a result object.\<close>

theorem claimBounty_rejects_without_keychain_witness:
  "\<forall>r. fst (claimBounty (scenario_github True (merged_by ''alice'' (Some ''c0ffee'')) True) no_keychain
       ''2025-01-02T00:00:00.000Z'' ''alice'' ''b1'' scenario_bounty
       ''https://github.com/owner/repo/pull/7'') \<noteq> Resolved r"
  using claimBounty_rejects_without_keychain by simp

section \<open>The merge commit of a claim\<close>

text \<open>
  C10. When a claim passes every guard and the details of the pull request carry no
  merge commit (\<^verbatim>\<open>mergeCommitSha\<close> is null), the claim record sent for signing has the
  empty string as its \<open>mergeCommitHash\<close>.
\<close>

theorem claimBounty_null_merge_commit:
  assumes "parseGitHubUrl gh (githubLink bountyData) = Some i"
    and "parseGitHubUrl gh pr_url = Some p"
    and "owner i = owner p" and "repo i = repo p"
    and "isIssueClosed gh (owner i) (repo i) (number i) = Resolved True"
    and "getPullRequestDetails gh (owner p) (repo p) (number p) = Resolved d"
    and "merged d" and "user d = Some u"
    and "isPRLinkedToIssue gh (owner i) (repo i) (number p) (number i) = Resolved True"
    and "mergeCommitSha d = None"
    and "hive_keychain win = Some requestCustomJson"
  shows "snd (claimBounty gh win now username bounty_id bountyData pr_url)
     = [Call_isIssueClosed (owner i) (repo i) (number i),
        Call_getPullRequestDetails (owner p) (repo p) (number p),
        Call_isPRLinkedToIssue (owner i) (repo i) (number p) (number i),
        Call_requestCustomJson username ''dev-bounties'' ''Active''
          (bounty_claim
             \<lparr>bountyId = bounty_id, solver = username, pullRequestUrl = pr_url,
              mergeCommitHash = [], timestamp = now, githubUsername = login u\<rparr>)
          ''Claim Development Bounty'']"
  using assms
  by (simp add: claimBounty_def after_def keychain_promise_def or_else_def
        split: keychain_reply.splits)

theorem claimBounty_null_merge_commit_witness:
  "snd (claimBounty (scenario_github True (merged_by ''alice'' None) True)
          (keychain_answering (signed_as ''tx-claim'')) ''2025-01-02T00:00:00.000Z'' ''alice'' ''b1''
          scenario_bounty ''https://github.com/owner/repo/pull/7'')
     = [Call_isIssueClosed ''owner'' ''repo'' 5,
        Call_getPullRequestDetails ''owner'' ''repo'' 7,
        Call_isPRLinkedToIssue ''owner'' ''repo'' 7 5,
        Call_requestCustomJson ''alice'' ''dev-bounties'' ''Active''
          (bounty_claim
             \<lparr>bountyId = ''b1'', solver = ''alice'',
              pullRequestUrl = ''https://github.com/owner/repo/pull/7'',
              mergeCommitHash = [], timestamp = ''2025-01-02T00:00:00.000Z'',
              githubUsername = ''alice''\<rparr>)
          ''Claim Development Bounty'']"
  using claimBounty_null_merge_commit
          [of "scenario_github True (merged_by ''alice'' None) True" scenario_bounty
              "\<lparr>owner = ''owner'', repo = ''repo'', number = 5\<rparr>"
              "''https://github.com/owner/repo/pull/7''"
              "\<lparr>owner = ''owner'', repo = ''repo'', number = 7\<rparr>"
              "merged_by ''alice'' None" "\<lparr>login = ''alice''\<rparr>"
              "keychain_answering (signed_as ''tx-claim'')"
              "\<lambda>username id key json label. Callback (signed_as ''tx-claim'')"
              "''2025-01-02T00:00:00.000Z''" "''alice''" "''b1''"]
  by (simp add: scenario_github_defs keychain_answering_def)

section \<open>A release whose preconditions fail\<close>

lemma release_handler_no_transfer:
  "amount_not_positive rt b \<or> ACTIVE_KEY cfg = None \<or> (escrow_account_found cfg client a \<and> balance_below rt a b)
   \<Longrightarrow> \<not> body_success (json (fst (release_handler rt cfg client b))) \<and>
       (\<forall>ops key. Broadcast_sendOperations ops key \<notin> set (snd (release_handler rt cfg client b)))"
  by (auto simp: release_handler_def amount_not_positive_def balance_below_def escrow_account_found_def
        reply_def falsy_def Let_def
        split: option.splits promise.splits list.splits)

lemma release_handler_messages:
  assumes "required_parameters b" and "\<not> falsy (ESCROW_ACCOUNT cfg)"
  shows "(ACTIVE_KEY cfg = None \<longrightarrow>
            release_handler rt cfg client b
              = (reply 500 False (Some ''Private key not configured or invalid''), [])) \<and>
         (ACTIVE_KEY cfg \<noteq> None \<and> escrow_account_found cfg client a \<longrightarrow>
            (amount_not_positive rt b \<longrightarrow>
               release_handler rt cfg client b
                 = (reply 400 False (Some ''Invalid amount''),
                    [Query_getAccounts [the (ESCROW_ACCOUNT cfg)]])) \<and>
            (\<not> amount_not_positive rt b \<and> balance_below rt a b \<longrightarrow>
               release_handler rt cfg client b
                 = (reply 400 False
                      (Some (''Insufficient balance in escrow account. Available: ''
                             @ numberToString rt (parseFloat rt (balance a)) @ '' HIVE, Requested: ''
                             @ numberToString rt (parseFloat rt (the (req_amount b))) @ '' HIVE'')),
                    [Query_getAccounts [the (ESCROW_ACCOUNT cfg)]])))"
  using assms
  by (auto simp: release_handler_def amount_not_positive_def balance_below_def escrow_account_found_def
        required_parameters_def falsy_def Let_def
        split: option.splits promise.splits list.splits)

lemma releaseEscrowFunds_resolves:
  "\<exists>r. fst (releaseEscrowFunds post to amount bounty_id requester memo) = Resolved r"
  by (simp add: releaseEscrowFunds_def Let_def after_def split: promise.splits)


lemma verifyApiKey_no_success:
  "\<not> body_success (json (fst next)) \<Longrightarrow> \<not> body_success (json (fst (verifyApiKey cfg req next)))"
  by (simp add: verifyApiKey_def reply_def Let_def)

lemma releaseEscrowFunds_failure:
  assumes "\<forall>data. post \<lparr>req_to = Some to, req_amount = Some amount, req_bountyId = Some bounty_id,
                          req_requester = Some requester, req_memo = memo\<rparr> = Resolved data
                   \<longrightarrow> \<not> body_success data"
  shows "\<exists>r. fst (releaseEscrowFunds post to amount bounty_id requester memo) = Resolved r \<and> \<not> success r"
  using assms by (simp add: releaseEscrowFunds_def Let_def after_def split: promise.splits)

text \<open>
  C4, with the order of the handler's checks. A request whose amount does not parse as
  a positive number, or that meets a server without the signing credential, or whose
  amount is above the balance of the escrow account, is answered with \<open>success = False\<close>; no transfer is broadcast; and
  the client's \<open>releaseEscrowFunds\<close> resolves, with \<open>success = False\<close> for that request,
  whatever key it sends. The message is that of the first check to fail in the order
  of the handler: with the required parameters present and the escrow account
  configured, a missing credential gives \<^verbatim>\<open>Private key not configured or invalid\<close>;
  with the credential loaded and the escrow account found, an amount that is not
  positive gives \<^verbatim>\<open>Invalid amount\<close>, and a positive amount above the balance gives the
  message of the insufficient balance with both numbers.
\<close>

theorem release_precondition_failure:
  "let run = release_handler rt cfg client b
   in (amount_not_positive rt b \<or> ACTIVE_KEY cfg = None \<or>
         (escrow_account_found cfg client a \<and> balance_below rt a b) \<longrightarrow>
         \<not> body_success (json (fst run)) \<and>
         (\<forall>ops key. Broadcast_sendOperations ops key \<notin> set (snd run)) \<and>
         (\<forall>k. \<exists>r. fst (releaseEscrowFunds (escrowClient_post k (post_api_release rt cfg client))
                          to amount bounty_id requester memo) = Resolved r \<and>
                 (b = \<lparr>req_to = Some to, req_amount = Some amount, req_bountyId = Some bounty_id,
                       req_requester = Some requester, req_memo = memo\<rparr> \<longrightarrow> \<not> success r))) \<and>
      (required_parameters b \<and> \<not> falsy (ESCROW_ACCOUNT cfg) \<longrightarrow>
         (ACTIVE_KEY cfg = None \<longrightarrow>
            run = (reply 500 False (Some ''Private key not configured or invalid''), [])) \<and>
         (\<forall>e requested. ACTIVE_KEY cfg \<noteq> None \<and> escrow_account_found cfg client a \<and>
                ESCROW_ACCOUNT cfg = Some e \<and> req_amount b = Some requested \<longrightarrow>
            (amount_not_positive rt b \<longrightarrow>
               run = (reply 400 False (Some ''Invalid amount''), [Query_getAccounts [e]])) \<and>
            (\<not> amount_not_positive rt b \<and> balance_below rt a b \<longrightarrow>
               run = (reply 400 False
                        (Some (''Insufficient balance in escrow account. Available: ''
                               @ numberToString rt (parseFloat rt (balance a))
                               @ '' HIVE, Requested: ''
                               @ numberToString rt (parseFloat rt requested) @ '' HIVE'')),
                      [Query_getAccounts [e]]))))"
proof -
  have client: "\<exists>r. fst (releaseEscrowFunds (escrowClient_post k (post_api_release rt cfg client))
                          to amount bounty_id requester memo) = Resolved r \<and>
                 (b = \<lparr>req_to = Some to, req_amount = Some amount, req_bountyId = Some bounty_id,
                       req_requester = Some requester, req_memo = memo\<rparr> \<longrightarrow> \<not> success r)"
    if fails: "\<not> body_success (json (fst (release_handler rt cfg client b)))" for k
  proof (cases "b = \<lparr>req_to = Some to, req_amount = Some amount, req_bountyId = Some bounty_id,
                       req_requester = Some requester, req_memo = memo\<rparr>")
    case True
    have "\<not> body_success (json (fst (post_api_release rt cfg client \<lparr>x_api_key = Some k, body = b\<rparr>)))"
      unfolding post_api_release_def using fails by (simp add: verifyApiKey_no_success)
    then have "\<forall>data. escrowClient_post k (post_api_release rt cfg client) b = Resolved data
                 \<longrightarrow> \<not> body_success data"
      by (simp add: escrowClient_post_def Let_def)
    then show ?thesis
      using releaseEscrowFunds_failure [of "escrowClient_post k (post_api_release rt cfg client)"
              to amount bounty_id requester memo] True
      by auto
  next
    case False
    then show ?thesis
      using releaseEscrowFunds_resolves
              [of "escrowClient_post k (post_api_release rt cfg client)" to amount bounty_id requester memo]
      by auto
  qed
  show ?thesis
    unfolding Let_def
  proof (intro conjI impI allI, goal_cases)
    case 1
    then show ?case using release_handler_no_transfer [of rt b cfg client a] by blast
  next
    case (2 ops key)
    then show ?case using release_handler_no_transfer [of rt b cfg client a] by blast
  next
    case (3 k)
    then have "\<not> body_success (json (fst (release_handler rt cfg client b)))"
      using release_handler_no_transfer [of rt b cfg client a] by blast
    then show ?case by (rule client)
  next
    case 4
    then show ?case using release_handler_messages [of b cfg rt client a] by blast
  next
    case (5 e requested)
    then show ?case using release_handler_messages [of b cfg rt client a] by simp
  next
    case (6 e requested)
    then show ?case using release_handler_messages [of b cfg rt client a] by simp
  qed
qed

text \<open>
  C4 without that order fails: where the credential is missing and the amount is
  \<^verbatim>\<open>-5\<close>, the credential is checked first and the message is its own, not
  \<^verbatim>\<open>Invalid amount\<close>.
\<close>

theorem release_precondition_failure_counterexample:
  "amount_not_positive decimal_runtime (release_of ''alice'' ''-5'') \<and>
   release_handler decimal_runtime (scenario_config None)
       (scenario_ledger [(''escrow'', ''100.000 HIVE'')]) (release_of ''alice'' ''-5'')
     = (reply 500 False (Some ''Private key not configured or invalid''), []) \<and>
   body_message (json (fst (release_handler decimal_runtime (scenario_config None)
       (scenario_ledger [(''escrow'', ''100.000 HIVE'')]) (release_of ''alice'' ''-5''))))
     \<noteq> Some ''Invalid amount''"
  using minus_5_not_positive
  by (simp add: release_handler_def scenario_server_defs falsy_def reply_def)


text \<open>The third scenario of the spec: the amount \<^verbatim>\<open>-5\<close> on a server that could pay.\<close>

theorem release_precondition_failure_witness:
  "amount_not_positive decimal_runtime (release_of ''alice'' ''-5'') \<and>
   required_parameters (release_of ''alice'' ''-5'') \<and>
   ACTIVE_KEY (scenario_config (Some ''5Kactive'')) = Some (PrivateKey ''5Kactive'') \<and>
   release_handler decimal_runtime (scenario_config (Some ''5Kactive''))
       (scenario_ledger [(''escrow'', ''100.000 HIVE'')]) (release_of ''alice'' ''-5'')
     = (reply 400 False (Some ''Invalid amount''), [Query_getAccounts [''escrow'']])"
  using release_precondition_failure
          [of decimal_runtime "scenario_config (Some ''5Kactive'')"
              "scenario_ledger [(''escrow'', ''100.000 HIVE'')]" "release_of ''alice'' ''-5''"
              "\<lparr>name = ''escrow'', balance = ''100.000 HIVE'', hbd_balance = ''0.000 HBD''\<rparr>"]
        minus_5_not_positive
  by (simp add: Let_def required_parameters_def escrow_account_found_def scenario_server_defs
        falsy_def)

section \<open>A bounty the creator cannot fund\<close>

lemma createBounty_rejects_low_balance:
  assumes "getAccounts hive [username] = Resolved (account # others)"
    and "js_less (parseFloat rt (balance account)) (parseFloat rt (prizePool bountyData))"
  shows "(\<exists>r. fst (createBounty rt hive win now username bountyData) = Resolved r \<and> \<not> success r) \<and>
         set (snd (createBounty rt hive win now username bountyData))
           \<subseteq> {Call_getAccounts [CONTRACT_ACCOUNT hive], Call_getAccounts [username]}"
  using assms
  by (auto simp: createBounty_def after_def Let_def create_catch_def split: promise.splits list.splits)

text \<open>
  C5, with the check that comes before the balance. When the creator's account holds less than the prize pool,
  \<open>createBounty\<close> ends with \<open>success = False\<close>, and no request for signing and no
  transfer is among the calls it made. When the contract account exists, the message
  is the one of the insufficient balance, which names both amounts, and the calls are
  the two account queries.
\<close>

theorem createBounty_insufficient_balance:
  assumes "getAccounts hive [username] = Resolved (account # others)"
    and "js_less (parseFloat rt (balance account)) (parseFloat rt (prizePool bountyData))"
  shows "let run = createBounty rt hive win now username bountyData
         in (\<exists>r. fst run = Resolved r \<and> \<not> success r) \<and>
            (\<forall>u i k p l. Call_requestCustomJson u i k p l \<notin> set (snd run)) \<and>
            (\<forall>sender receiver amount memo. Call_sendHiveTokens sender receiver amount memo \<notin> set (snd run)) \<and>
            (\<forall>c cs. getAccounts hive [CONTRACT_ACCOUNT hive] = Resolved (c # cs) \<longrightarrow>
               run = (Resolved (failure
                        (''Insufficient balance. You have ''
                         @ numberToString rt (parseFloat rt (balance account))
                         @ '' HIVE but the bounty requires ''
                         @ numberToString rt (parseFloat rt (prizePool bountyData)) @ '' HIVE'')),
                      [Call_getAccounts [CONTRACT_ACCOUNT hive], Call_getAccounts [username]]))"
proof -
  have message: "createBounty rt hive win now username bountyData
          = (Resolved (failure
                        (''Insufficient balance. You have ''
                         @ numberToString rt (parseFloat rt (balance account))
                         @ '' HIVE but the bounty requires ''
                         @ numberToString rt (parseFloat rt (prizePool bountyData)) @ '' HIVE'')),
                      [Call_getAccounts [CONTRACT_ACCOUNT hive], Call_getAccounts [username]])"
    if "getAccounts hive [CONTRACT_ACCOUNT hive] = Resolved (c # cs)" for c cs
    using assms that by (simp add: createBounty_def after_def Let_def failure_def)
  show ?thesis
    unfolding Let_def
    using createBounty_rejects_low_balance [OF assms, of win now] message
    by blast
qed

text \<open>
  C5 without that check fails: where the contract account does not exist, the call is
  rejected on that account before the creator's balance is read, and the message is
  not the one of the insufficient balance.
\<close>

theorem createBounty_insufficient_balance_counterexample:
  "getAccounts (scenario_hive [(''bob'', ''10.000 HIVE'')]) [''bob'']
     = Resolved [\<lparr>name = ''bob'', balance = ''10.000 HIVE'', hbd_balance = ''0.000 HBD''\<rparr>] \<and>
   js_less (parseFloat decimal_runtime ''10.000 HIVE'') (parseFloat decimal_runtime (prizePool scenario_fields)) \<and>
   createBounty decimal_runtime (scenario_hive [(''bob'', ''10.000 HIVE'')])
       (keychain_answering (signed_as ''tx-create'')) ''2025-01-01T00:00:00.000Z'' ''bob'' scenario_fields
     = (Resolved (failure ''Contract account escrow does not exist''), [Call_getAccounts [''escrow'']])"
  by (simp add: createBounty_def scenario_hive_def accounts_of_def after_def failure_def
        scenario_fields_def decimal_runtime_def parse_10 parse_30)

text \<open>The creator holds 10 HIVE and offers 30; the contract account exists.\<close>

theorem createBounty_insufficient_balance_witness:
  "js_less (parseFloat decimal_runtime ''10.000 HIVE'') (parseFloat decimal_runtime (prizePool scenario_fields)) \<and>
   createBounty decimal_runtime (scenario_hive [(''escrow'', ''0.000 HIVE''), (''bob'', ''10.000 HIVE'')])
       (keychain_answering (signed_as ''tx-create'')) ''2025-01-01T00:00:00.000Z'' ''bob'' scenario_fields
     = (Resolved (failure ''Insufficient balance. You have 10 HIVE but the bounty requires 30 HIVE''),
        [Call_getAccounts [''escrow''], Call_getAccounts [''bob'']])"
  using createBounty_insufficient_balance
          [of "scenario_hive [(''escrow'', ''0.000 HIVE''), (''bob'', ''10.000 HIVE'')]" "''bob''"
              "\<lparr>name = ''bob'', balance = ''10.000 HIVE'', hbd_balance = ''0.000 HBD''\<rparr>" "[]"
              decimal_runtime scenario_fields "keychain_answering (signed_as ''tx-create'')"
              "''2025-01-01T00:00:00.000Z''"]
  by (simp add: Let_def scenario_hive_def accounts_of_def scenario_fields_def decimal_runtime_def
        parse_10 parse_30 show_10 show_30)

section \<open>A server without its signing credential\<close>

lemma startup_without_credential:
  assumes "env_ACTIVE_KEY env = None \<or> env_ACTIVE_KEY env = Some [] \<or>
           (\<exists>s error. env_ACTIVE_KEY env = Some s \<and> PrivateKey_from s = Inl error)"
  shows "ACTIVE_KEY (startup PrivateKey_from env) = None"
  using assms by (auto simp: startup_def load_ACTIVE_KEY_def)

lemma release_without_credential:
  assumes "ACTIVE_KEY cfg = None"
  shows "\<not> body_success (json (fst (post_api_release rt cfg client req))) \<and>
         (\<forall>ops key. Broadcast_sendOperations ops key \<notin> set (snd (post_api_release rt cfg client req)))"
  using assms
  by (simp add: post_api_release_def verifyApiKey_def release_handler_def reply_def Let_def)

lemma release_credential_message:
  assumes "ACTIVE_KEY cfg = None" and "x_api_key req = Some (API_KEY cfg)" and "API_KEY cfg \<noteq> []"
    and "required_parameters (body req)" and "\<not> falsy (ESCROW_ACCOUNT cfg)"
  shows "post_api_release rt cfg client req
           = (reply 500 False (Some ''Private key not configured or invalid''), [])"
  using assms
  by (simp add: post_api_release_def verifyApiKey_def release_handler_def Let_def falsy_def
        required_parameters_def)

lemma balance_ignores_credential:
  "get_api_balance (cfg\<lparr>ACTIVE_KEY := key\<rparr>) client req = get_api_balance cfg client req"
proof -
  have "balance_handler (cfg\<lparr>ACTIVE_KEY := key\<rparr>) client = balance_handler cfg client"
    by (simp add: balance_handler_def split: promise.splits list.splits)
  then show ?thesis
    by (simp add: get_api_balance_def verifyApiKey_def)
qed

lemma balance_operable:
  assumes "x_api_key req = Some (API_KEY cfg)" and "API_KEY cfg \<noteq> []"
    and "ESCROW_ACCOUNT cfg = Some e" and "e \<noteq> []"
    and "database_getAccounts client [e] = Resolved (a # others)"
  shows "get_api_balance cfg client req
           = (\<lparr>status = 200,
               json = \<lparr>body_success = True, body_message = None, transaction_id = None,
                       body_balance = Some (balance a), body_hbd_balance = Some (hbd_balance a)\<rparr>\<rparr>,
              [Query_getAccounts [e]])"
  using assms
  by (simp add: get_api_balance_def verifyApiKey_def balance_handler_def Let_def falsy_def)

lemma startup_API_KEY: "API_KEY (startup PrivateKey_from env) \<noteq> []"
  by (simp add: startup_def or_else_def split: option.splits)

text \<open>
  C7, with the checks that come before the credential. When \<^verbatim>\<open>ACTIVE_KEY\<close> is unset, empty or refused by the key parser at
  startup, every POST to \<^verbatim>\<open>/api/release\<close> is answered with \<open>success = False\<close> and
  broadcasts no transfer; a request with the right API key and all required
  parameters, on a server whose escrow account is configured, is answered with
  \<^verbatim>\<open>Private key not configured or invalid\<close> before any call to the ledger. The
  answer of GET \<^verbatim>\<open>/api/balance\<close> does not depend on the credential: with the right API
  key it is the balances of the escrow account whenever the account is configured and
  the ledger returns it.
\<close>

theorem release_disabled_without_credential:
  assumes "env_ACTIVE_KEY env = None \<or> env_ACTIVE_KEY env = Some [] \<or>
           (\<exists>s error. env_ACTIVE_KEY env = Some s \<and> PrivateKey_from s = Inl error)"
  shows "let cfg = startup PrivateKey_from env
         in (\<forall>req. \<not> body_success (json (fst (post_api_release rt cfg client req))) \<and>
                   (\<forall>ops key. Broadcast_sendOperations ops key
                                 \<notin> set (snd (post_api_release rt cfg client req)))) \<and>
            (\<forall>req. x_api_key req = Some (API_KEY cfg) \<and> required_parameters (body req) \<and>
                   \<not> falsy (ESCROW_ACCOUNT cfg) \<longrightarrow>
                   post_api_release rt cfg client req
                     = (reply 500 False (Some ''Private key not configured or invalid''), [])) \<and>
            (\<forall>req key. get_api_balance (cfg\<lparr>ACTIVE_KEY := key\<rparr>) client req
                          = get_api_balance cfg client req) \<and>
            (\<forall>req e a others.
                   x_api_key req = Some (API_KEY cfg) \<and> ESCROW_ACCOUNT cfg = Some e \<and> e \<noteq> [] \<and>
                   database_getAccounts client [e] = Resolved (a # others) \<longrightarrow>
                   get_api_balance cfg client req
                     = (\<lparr>status = 200,
                         json = \<lparr>body_success = True, body_message = None, transaction_id = None,
                                 body_balance = Some (balance a),
                                 body_hbd_balance = Some (hbd_balance a)\<rparr>\<rparr>,
                        [Query_getAccounts [e]]))"
proof -
  have none: "ACTIVE_KEY (startup PrivateKey_from env) = None"
    using assms by (rule startup_without_credential)
  show ?thesis
    unfolding Let_def
  proof (intro conjI allI impI, goal_cases)
    case (1 req)
    then show ?case using release_without_credential [OF none] by blast
  next
    case (2 req ops key)
    then show ?case using release_without_credential [OF none] by blast
  next
    case (3 req)
    then show ?case using release_credential_message [OF none _ startup_API_KEY] by blast
  next
    case (4 req key)
    then show ?case by (rule balance_ignores_credential)
  next
    case (5 req e a others)
    then show ?case using balance_operable [OF _ startup_API_KEY] by blast
  qed
qed

text \<open>
  C7 without those checks fails: a request that lacks a required parameter is refused
  for the parameter before the credential is looked at, and the message is not the one
  of the credential.
\<close>

theorem release_disabled_without_credential_counterexample:
  "ACTIVE_KEY (scenario_config None) = None \<and>
   post_api_release decimal_runtime (scenario_config None)
       (scenario_ledger [(''escrow'', ''100.000 HIVE'')])
       \<lparr>x_api_key = Some ''your-api-key'', body = (release_of ''alice'' ''30'')\<lparr>req_to := None\<rparr>\<rparr>
     = (reply 400 False (Some ''Missing required parameters''), []) \<and>
   body_message (json (fst (post_api_release decimal_runtime (scenario_config None)
       (scenario_ledger [(''escrow'', ''100.000 HIVE'')])
       \<lparr>x_api_key = Some ''your-api-key'', body = (release_of ''alice'' ''30'')\<lparr>req_to := None\<rparr>\<rparr>)))
     \<noteq> Some ''Private key not configured or invalid''"
  by (simp add: post_api_release_def verifyApiKey_def release_handler_def scenario_server_defs
        falsy_def or_else_def reply_def)

text \<open>A key the parser refuses; the escrow account holds 100 HIVE.\<close>

theorem release_disabled_without_credential_witness:
  "scenario_PrivateKey_from ''not-a-key'' = Inl (Error (Some ''private key network id mismatch'')) \<and>
   post_api_release decimal_runtime (scenario_config (Some ''not-a-key''))
       (scenario_ledger [(''escrow'', ''100.000 HIVE'')])
       \<lparr>x_api_key = Some ''your-api-key'', body = release_of ''alice'' ''30''\<rparr>
     = (reply 500 False (Some ''Private key not configured or invalid''), []) \<and>
   get_api_balance (scenario_config (Some ''not-a-key''))
       (scenario_ledger [(''escrow'', ''100.000 HIVE'')])
       \<lparr>x_api_key = Some ''your-api-key'', body = release_of ''alice'' ''30''\<rparr>
     = (\<lparr>status = 200,
         json = \<lparr>body_success = True, body_message = None, transaction_id = None,
                 body_balance = Some ''100.000 HIVE'', body_hbd_balance = Some ''0.000 HBD''\<rparr>\<rparr>,
        [Query_getAccounts [''escrow'']])"
  using release_disabled_without_credential
          [of "scenario_env (Some ''not-a-key'')" scenario_PrivateKey_from decimal_runtime
              "scenario_ledger [(''escrow'', ''100.000 HIVE'')]"]
  by (simp add: Let_def scenario_server_defs or_else_def falsy_def required_parameters_def)

section \<open>Requests without the shared secret\<close>

text \<open>
  C8. A request to GET \<^verbatim>\<open>/api/balance\<close> or to POST \<^verbatim>\<open>/api/release\<close> whose
  \<^verbatim>\<open>X-API-Key\<close> header is absent or differs from the configured key is answered with
  status 401 and \<^verbatim>\<open>{success: false, message: "Unauthorized"}\<close>, and the server makes
  no call to the ledger: no account query and no broadcast.
\<close>

theorem unauthorized_requests:
  assumes "x_api_key req \<noteq> Some (API_KEY cfg)"
  shows "get_api_balance cfg client req = (reply 401 False (Some ''Unauthorized''), []) \<and>
         post_api_release rt cfg client req = (reply 401 False (Some ''Unauthorized''), [])"
  using assms by (simp add: get_api_balance_def post_api_release_def verifyApiKey_def Let_def)

text \<open>A request without the header, and one with a wrong key.\<close>

theorem unauthorized_requests_witness:
  "get_api_balance (scenario_config (Some ''5Kactive'')) (scenario_ledger [(''escrow'', ''100.000 HIVE'')])
       \<lparr>x_api_key = None, body = release_of ''alice'' ''30''\<rparr>
     = (\<lparr>status = 401,
         json = \<lparr>body_success = False, body_message = Some ''Unauthorized'', transaction_id = None,
                 body_balance = None, body_hbd_balance = None\<rparr>\<rparr>, []) \<and>
   post_api_release decimal_runtime (scenario_config (Some ''5Kactive''))
       (scenario_ledger [(''escrow'', ''100.000 HIVE'')])
       \<lparr>x_api_key = Some ''guess'', body = release_of ''alice'' ''30''\<rparr>
     = (\<lparr>status = 401,
         json = \<lparr>body_success = False, body_message = Some ''Unauthorized'', transaction_id = None,
                 body_balance = None, body_hbd_balance = None\<rparr>\<rparr>, [])"
  using unauthorized_requests
          [of "\<lparr>x_api_key = None, body = release_of ''alice'' ''30''\<rparr>"
              "scenario_config (Some ''5Kactive'')" "scenario_ledger [(''escrow'', ''100.000 HIVE'')]"
              decimal_runtime]
        unauthorized_requests
          [of "\<lparr>x_api_key = Some ''guess'', body = release_of ''alice'' ''30''\<rparr>"
              "scenario_config (Some ''5Kactive'')" "scenario_ledger [(''escrow'', ''100.000 HIVE'')]"
              decimal_runtime]
  by (simp add: reply_def scenario_config_def startup_def or_else_def scenario_env_def)

end
